theory Spec2Isabelle
  imports Main "HOL-Library.Word"
begin

section \<open>Pointer and value arguments in \<open>GOlang/function_example.go\<close>\<close>

text \<open>
  The program declares one integer variable \<open>count\<close>, passes its address to
  \<open>incrementValue\<close>, then passes its value to \<open>incrementValueNoPtr\<close>, and prints
  addresses and values along the way. The embedding keeps the two things the program
  acts on: the integer variables that are alive (a store from addresses to values) and
  the calls made to \<open>fmt\<close> (the standard output, in order).
\<close>

subsection \<open>Values, pointers and configurations\<close>

text \<open>
  Go's \<open>int\<close> on a 64-bit platform: a 64-bit two's complement integer, read with
  \<open>sint\<close>; \<open>+\<close> wraps around. Addresses are machine words as well.
\<close>

type_synonym go_int = "64 word"
type_synonym addr = "64 word"

text \<open>A value of type \<open>*int\<close>: \<open>nil\<close>, or the address of an integer variable.\<close>

datatype ptr = NilPtr | Addr addr

text \<open>
  An operand handed to \<open>fmt.Printf\<close>, and one call to \<open>fmt\<close>. The format strings are
  those of the source, character for character.
\<close>

datatype arg = ArgPtr ptr | ArgInt go_int

datatype event = Println string | Printf string "arg list"

text \<open>The only run-time panic the program can raise: dereferencing an invalid pointer.\<close>

datatype fault = NilDereference

record config =
  cells :: "addr \<rightharpoonup> go_int"
  stdout :: "event list"

text \<open>
  A configuration is the state of the program (its live integer variables) together
  with what it has printed so far. A statement either returns normally with the new
  configuration (\<open>Inr\<close>), or panics (\<open>Inl\<close>) in the configuration reached so far.
\<close>

type_synonym outcome = "(fault \<times> config) + config"
type_synonym stmt = "config \<Rightarrow> outcome"

fun exec :: "stmt list \<Rightarrow> stmt" where
  "exec [] s = Inr s"
| "exec (c # cs) s = (case c s of Inl e \<Rightarrow> Inl e | Inr s' \<Rightarrow> exec cs s')"

subsection \<open>Primitive statements\<close>

definition emit :: "event \<Rightarrow> stmt" where
  "emit e s = Inr (s\<lparr>stdout := stdout s @ [e]\<rparr>)"

text \<open>\<open>fmt.Println(l)\<close> and \<open>fmt.Printf(f, as...)\<close> with operands already evaluated.\<close>

definition println :: "string \<Rightarrow> stmt" where
  "println l = emit (Println l)"

definition printf :: "string \<Rightarrow> arg list \<Rightarrow> stmt" where
  "printf f as = emit (Printf f as)"

text \<open>The pointer indirection \<open>*p\<close>: the variable \<open>p\<close> points to, if there is one.\<close>

definition deref :: "ptr \<Rightarrow> config \<Rightarrow> go_int option" where
  "deref p s = (case p of NilPtr \<Rightarrow> None | Addr a \<Rightarrow> cells s a)"

text \<open>\<open>fmt.Printf(f, *p)\<close>\<close>

definition printf_deref :: "string \<Rightarrow> ptr \<Rightarrow> stmt" where
  "printf_deref f p s =
     (case deref p s of
        None \<Rightarrow> Inl (NilDereference, s)
      | Some v \<Rightarrow> printf f [ArgInt v] s)"

text \<open>\<open>fmt.Printf(f, &*p)\<close>: the indirection is evaluated, and its address taken.\<close>

definition printf_addr_of_deref :: "string \<Rightarrow> ptr \<Rightarrow> stmt" where
  "printf_addr_of_deref f p s =
     (case deref p s of
        None \<Rightarrow> Inl (NilDereference, s)
      | Some v \<Rightarrow> printf f [ArgPtr p] s)"

text \<open>\<open>*p++\<close>\<close>

definition incr_deref :: "ptr \<Rightarrow> stmt" where
  "incr_deref p s =
     (case p of
        NilPtr \<Rightarrow> Inl (NilDereference, s)
      | Addr a \<Rightarrow>
          (case cells s a of
             None \<Rightarrow> Inl (NilDereference, s)
           | Some v \<Rightarrow> Inr (s\<lparr>cells := (cells s)(a \<mapsto> v + 1)\<rparr>)))"

text \<open>
  A variable whose address is taken lives in the store. \<open>declare_var a v\<close> is its
  declaration, \<open>a\<close> being the address the runtime gives it; \<open>release_var a\<close> is the end
  of its lifetime, when the function that declared it returns.
\<close>

definition declare_var :: "addr \<Rightarrow> go_int \<Rightarrow> stmt" where
  "declare_var a v s = Inr (s\<lparr>cells := (cells s)(a \<mapsto> v)\<rparr>)"

definition release_var :: "addr \<Rightarrow> stmt" where
  "release_var a s = Inr (s\<lparr>cells := (cells s)(a := None)\<rparr>)"

subsection \<open>The two functions\<close>

text \<open>\<open>func incrementValue(valPtr *int)\<close>, lines 7 to 18.\<close>

definition incrementValue :: "ptr \<Rightarrow> stmt" where
  "incrementValue valPtr = exec
     [println ''\<newline>Inside incrementValue function (pointer version):'',
      printf ''Address of variable inside function: %p\<newline>'' [ArgPtr valPtr],
      printf_addr_of_deref
        ''Address where the value is stored (dereferenced pointer): %p\<newline>'' valPtr,
      printf_deref ''Value before increment: %d\<newline>'' valPtr,
      incr_deref valPtr,
      printf_deref ''Value after increment: %d\<newline>'' valPtr,
      printf
        ''Address of variable inside function after increment (still same pointer address): %p\<newline>''
        [ArgPtr valPtr],
      printf_addr_of_deref
        ''Address where the value is stored after increment (still same memory location): %p\<newline>''
        valPtr]"

text \<open>
  \<open>func incrementValueNoPtr(val int)\<close>, lines 23 to 32. The parameter \<open>val\<close> is a
  variable of the callee, initialised with the operand's value; its address is taken, so
  it lives in the store, at the address \<open>b\<close> the runtime gives it, until the function
  returns.
\<close>

definition incrementValueNoPtr :: "addr \<Rightarrow> go_int \<Rightarrow> stmt" where
  "incrementValueNoPtr b val = exec
     [declare_var b val,
      println ''\<newline>Inside incrementValueNoPtr function (no pointer version):'',
      printf ''Address of variable inside function: %p\<newline>'' [ArgPtr (Addr b)],
      printf_deref ''Value before increment: %d\<newline>'' (Addr b),
      incr_deref (Addr b),
      printf_deref ''Value after increment: %d\<newline>'' (Addr b),
      printf
        ''Address of variable inside function after increment (still same address of copy): %p\<newline>''
        [ArgPtr (Addr b)],
      release_var b]"

subsection \<open>The driver\<close>

text \<open>
  \<open>func main()\<close>, lines 34 to 59, in the six steps its comments number. \<open>a\<close> is the
  address the runtime gives \<open>count\<close>, \<open>b\<close> the one it gives the parameter of
  \<open>incrementValueNoPtr\<close>.
\<close>

definition main_1 :: "addr \<Rightarrow> stmt list" where
  "main_1 a = [declare_var a 10]"

definition main_2 :: "addr \<Rightarrow> stmt list" where
  "main_2 a =
     [println ''Initial state:'',
      printf ''Variable name: count\<newline>'' [],
      printf ''Address of count in memory: %p\<newline>'' [ArgPtr (Addr a)],
      printf_deref ''Value of count: %d\<newline>'' (Addr a)]"

definition main_3 :: "addr \<Rightarrow> stmt list" where
  "main_3 a = [incrementValue (Addr a)]"

definition main_4 :: "addr \<Rightarrow> stmt list" where
  "main_4 a =
     [println ''\<newline>After incrementValue function (pointer version):'',
      printf ''Address of count in memory (after incrementValue): %p\<newline>'' [ArgPtr (Addr a)],
      printf_deref ''Value of count (after incrementValue): %d\<newline>'' (Addr a)]"

text \<open>\<open>incrementValueNoPtr(count)\<close>: the operand \<open>count\<close> is read, its value passed.\<close>

definition call_incrementValueNoPtr :: "addr \<Rightarrow> addr \<Rightarrow> stmt" where
  "call_incrementValueNoPtr a b s =
     (case deref (Addr a) s of
        None \<Rightarrow> Inl (NilDereference, s)
      | Some v \<Rightarrow> incrementValueNoPtr b v s)"

definition main_5 :: "addr \<Rightarrow> addr \<Rightarrow> stmt list" where
  "main_5 a b = [call_incrementValueNoPtr a b]"

definition main_6 :: "addr \<Rightarrow> stmt list" where
  "main_6 a =
     [println ''\<newline>After incrementValueNoPtr function (no pointer version):'',
      printf ''Address of count in memory (after incrementValueNoPtr): %p\<newline>''
        [ArgPtr (Addr a)],
      printf_deref ''Value of count (after incrementValueNoPtr): %d\<newline>'' (Addr a)]"

definition main_steps :: "addr \<Rightarrow> addr \<Rightarrow> stmt list list" where
  "main_steps a b = [main_1 a, main_2 a, main_3 a, main_4 a, main_5 a b, main_6 a]"

definition main :: "addr \<Rightarrow> addr \<Rightarrow> stmt" where
  "main a b = exec (concat (main_steps a b) @ [release_var a])"

text \<open>The program starts with no variable alive and nothing printed.\<close>

definition initial_state :: config where
  "initial_state = \<lparr>cells = Map.empty, stdout = []\<rparr>"

definition run_main :: "addr \<Rightarrow> addr \<Rightarrow> outcome" where
  "run_main a b = main a b initial_state"

subsection \<open>Observing a run\<close>

text \<open>
  Whether a statement returned normally, the configuration in which it stopped, what was
  printed up to there, and the content of a variable after a normal return.
\<close>

definition returned :: "outcome \<Rightarrow> bool" where
  "returned r = (case r of Inl e \<Rightarrow> False | Inr s \<Rightarrow> True)"

definition final :: "outcome \<Rightarrow> config" where
  "final r = (case r of Inl (f, s) \<Rightarrow> s | Inr s \<Rightarrow> s)"

definition printed :: "outcome \<Rightarrow> event list" where
  "printed r = stdout (final r)"

definition cell_after :: "outcome \<Rightarrow> addr \<Rightarrow> go_int option" where
  "cell_after r a = (case r of Inl e \<Rightarrow> None | Inr s \<Rightarrow> cells s a)"

text \<open>
  The exit status the Go runtime gives the process: 0 when \<open>main\<close> returns, 2 when a
  panic is not recovered.
\<close>

definition exit_code :: "outcome \<Rightarrow> nat" where
  "exit_code r = (case r of Inl e \<Rightarrow> 2 | Inr s \<Rightarrow> 0)"

text \<open>
  The run of \<open>main\<close> up to the end of its step \<open>k\<close> (\<open>after_step 6\<close> is the
  configuration at the closing brace of \<open>main\<close>), and what step \<open>k\<close> itself printed.
\<close>

definition after_step :: "nat \<Rightarrow> addr \<Rightarrow> addr \<Rightarrow> outcome" where
  "after_step k a b = exec (concat (take k (main_steps a b))) initial_state"

definition printed_in :: "nat \<Rightarrow> addr \<Rightarrow> addr \<Rightarrow> event list" where
  "printed_in k a b =
     drop (length (printed (after_step (k - 1) a b))) (printed (after_step k a b))"

text \<open>The pointers a call to \<open>fmt\<close> prints, and the call with its pointers blanked.\<close>

fun arg_ptrs :: "arg list \<Rightarrow> ptr list" where
  "arg_ptrs [] = []"
| "arg_ptrs (ArgPtr p # xs) = p # arg_ptrs xs"
| "arg_ptrs (ArgInt v # xs) = arg_ptrs xs"

fun event_ptrs :: "event \<Rightarrow> ptr list" where
  "event_ptrs (Println l) = []"
| "event_ptrs (Printf f xs) = arg_ptrs xs"

fun erase_arg :: "arg \<Rightarrow> arg" where
  "erase_arg (ArgPtr p) = ArgPtr NilPtr"
| "erase_arg (ArgInt v) = ArgInt v"

fun erase_addresses :: "event \<Rightarrow> event" where
  "erase_addresses (Println l) = Println l"
| "erase_addresses (Printf f xs) = Printf f (map erase_arg xs)"

text \<open>\<open>n\<close> calls of \<open>incrementValue\<close> in a row with the same pointer.\<close>

definition incrementValue_times :: "nat \<Rightarrow> ptr \<Rightarrow> stmt" where
  "incrementValue_times n valPtr = exec (replicate n (incrementValue valPtr))"

text \<open>
  Calls of \<open>incrementValueNoPtr\<close> in a row with the same operand value, one for each
  address of \<open>bs\<close>: the address the runtime gives the parameter in that call.
\<close>

definition incrementValueNoPtr_times :: "addr list \<Rightarrow> go_int \<Rightarrow> stmt" where
  "incrementValueNoPtr_times bs val = exec (map (\<lambda>b. incrementValueNoPtr b val) bs)"

section \<open>Properties\<close>

subsection \<open>Auxiliary facts\<close>

lemmas prim_defs = emit_def println_def printf_def deref_def printf_deref_def
  printf_addr_of_deref_def incr_deref_def declare_var_def release_var_def

lemmas main_defs = main_steps_def main_1_def main_2_def main_3_def main_4_def main_5_def
  main_6_def call_incrementValueNoPtr_def initial_state_def

lemmas obs_defs = returned_def final_def printed_def cell_after_def

text \<open>What \<open>incrementValue\<close> does with a pointer to a live variable.\<close>

lemma incrementValue_live:
  assumes "cells s a = Some v"
  shows "incrementValue (Addr a) s = Inr (s\<lparr>cells := (cells s)(a \<mapsto> v + 1),
    stdout := stdout s @
     [Println ''\<newline>Inside incrementValue function (pointer version):'',
      Printf ''Address of variable inside function: %p\<newline>'' [ArgPtr (Addr a)],
      Printf ''Address where the value is stored (dereferenced pointer): %p\<newline>''
        [ArgPtr (Addr a)],
      Printf ''Value before increment: %d\<newline>'' [ArgInt v],
      Printf ''Value after increment: %d\<newline>'' [ArgInt (v + 1)],
      Printf
        ''Address of variable inside function after increment (still same pointer address): %p\<newline>''
        [ArgPtr (Addr a)],
      Printf
        ''Address where the value is stored after increment (still same memory location): %p\<newline>''
        [ArgPtr (Addr a)]]\<rparr>)"
  using assms by (simp add: incrementValue_def prim_defs)

text \<open>With \<open>nil\<close> it prints two lines and panics at \<open>&*valPtr\<close> on line 10.\<close>

lemma incrementValue_nil:
  "incrementValue NilPtr s = Inl (NilDereference, s\<lparr>stdout := stdout s @
     [Println ''\<newline>Inside incrementValue function (pointer version):'',
      Printf ''Address of variable inside function: %p\<newline>'' [ArgPtr NilPtr]]\<rparr>)"
  by (simp add: incrementValue_def prim_defs)

lemma incrementValue_dangling:
  assumes "cells s a = None"
  shows "incrementValue (Addr a) s = Inl (NilDereference, s\<lparr>stdout := stdout s @
     [Println ''\<newline>Inside incrementValue function (pointer version):'',
      Printf ''Address of variable inside function: %p\<newline>'' [ArgPtr (Addr a)]]\<rparr>)"
  using assms by (simp add: incrementValue_def prim_defs)

text \<open>What \<open>incrementValueNoPtr\<close> does when its parameter gets a fresh address.\<close>

lemma incrementValueNoPtr_fresh:
  assumes "cells s b = None"
  shows "incrementValueNoPtr b v s = Inr (s\<lparr>stdout := stdout s @
     [Println ''\<newline>Inside incrementValueNoPtr function (no pointer version):'',
      Printf ''Address of variable inside function: %p\<newline>'' [ArgPtr (Addr b)],
      Printf ''Value before increment: %d\<newline>'' [ArgInt v],
      Printf ''Value after increment: %d\<newline>'' [ArgInt (v + 1)],
      Printf
        ''Address of variable inside function after increment (still same address of copy): %p\<newline>''
        [ArgPtr (Addr b)]]\<rparr>)"
proof -
  have "(cells s)(b := None) = cells s"
    using assms by (simp add: fun_upd_idem)
  then show ?thesis
    by (simp add: incrementValueNoPtr_def prim_defs)
qed

text \<open>Signed reading of a sum that stays below \<open>2 ^ 63\<close>, and of the successor.\<close>

lemma sint_add_in_range:
  fixes v :: go_int
  assumes "0 \<le> k" and "sint v + k < 9223372036854775808"
  shows "sint (v + word_of_int k) = sint v + k"
proof -
  have lo: "- 9223372036854775808 \<le> sint v"
    using sint_ge [of v] by simp
  have "v + word_of_int k = word_of_int (sint v + k)"
    by simp
  then have "sint (v + word_of_int k) = signed_take_bit 63 (sint v + k)"
    by (simp only: sint_sbintrunc') simp
  also have "\<dots> = sint v + k"
    using lo assms by (intro signed_take_bit_int_eq_self) simp_all
  finally show ?thesis .
qed

lemma sint_succ:
  fixes v :: go_int
  shows "sint (v + 1) =
    (if sint v = 9223372036854775807 then - 9223372036854775808 else sint v + 1)"
proof (cases "sint v = 9223372036854775807")
  case True
  have "word_of_int (sint v) = v"
    by simp
  with True have "v = 9223372036854775807"
    by (simp only: of_int_numeral)
  then show ?thesis by simp
next
  case False
  have "sint v < 9223372036854775808"
    using sint_lt [of v] by simp
  with False have "sint v + 1 < 9223372036854775808" by simp
  then have "sint (v + word_of_int 1) = sint v + 1"
    by (intro sint_add_in_range) simp_all
  with False show ?thesis by simp
qed

text \<open>
  The run of \<open>main\<close>, step by step: every step returns, the only live variable is
  \<open>count\<close>, and these are the lines the reporting steps print. The parameter of
  \<open>incrementValueNoPtr\<close> is a variable distinct from \<open>count\<close>, so the runtime gives it
  another address: \<open>a \<noteq> b\<close>.
\<close>

lemma steps_returned:
  "returned (after_step 1 a b)"
  "returned (after_step 2 a b)"
  "returned (after_step 3 a b)"
  "returned (after_step 4 a b)"
  "a \<noteq> b \<Longrightarrow> returned (after_step 5 a b)"
  "a \<noteq> b \<Longrightarrow> returned (after_step 6 a b)"
  by (simp_all add: after_step_def main_defs incrementValue_def incrementValueNoPtr_def
      prim_defs obs_defs fun_upd_twist)

lemma steps_cells:
  "cells (final (after_step 1 a b)) = [a \<mapsto> 10]"
  "cells (final (after_step 2 a b)) = [a \<mapsto> 10]"
  "cells (final (after_step 3 a b)) = [a \<mapsto> 11]"
  "cells (final (after_step 4 a b)) = [a \<mapsto> 11]"
  "a \<noteq> b \<Longrightarrow> cells (final (after_step 5 a b)) = [a \<mapsto> 11]"
  "a \<noteq> b \<Longrightarrow> cells (final (after_step 6 a b)) = [a \<mapsto> 11]"
  by (simp_all add: after_step_def main_defs incrementValue_def incrementValueNoPtr_def
      prim_defs obs_defs fun_upd_twist)

text \<open>
  The run of \<open>main\<close> is the run of its six steps, followed by the end of the lifetime of
  \<open>count\<close> when \<open>main\<close> returns.
\<close>

lemma exec_append:
  "exec (xs @ ys) s = (case exec xs s of Inl e \<Rightarrow> Inl e | Inr s' \<Rightarrow> exec ys s')"
  by (induction xs arbitrary: s) (auto split: sum.splits)

lemma run_main_after_step_6:
  "run_main a b = (case after_step 6 a b of Inl e \<Rightarrow> Inl e | Inr s \<Rightarrow> release_var a s)"
proof -
  have all: "take 6 (main_steps a b) = main_steps a b"
    by (simp add: main_steps_def)
  show ?thesis
    by (simp add: run_main_def main_def after_step_def exec_append all release_var_def
        split: sum.splits)
qed

lemma cell_after_final: "returned r \<Longrightarrow> cell_after r a = cells (final r) a"
  by (cases r) (simp_all add: obs_defs)

lemma only_printed:
  assumes "r = Inr (s\<lparr>stdout := evs\<rparr>)"
  shows "returned r" and "cells (final r) = cells s"
  using assms by (simp_all add: obs_defs)

lemma printed_in_steps:
  "printed_in 1 a b = []"
  "printed_in 2 a b =
     [Println ''Initial state:'',
      Printf ''Variable name: count\<newline>'' [],
      Printf ''Address of count in memory: %p\<newline>'' [ArgPtr (Addr a)],
      Printf ''Value of count: %d\<newline>'' [ArgInt 10]]"
  "printed_in 4 a b =
     [Println ''\<newline>After incrementValue function (pointer version):'',
      Printf ''Address of count in memory (after incrementValue): %p\<newline>'' [ArgPtr (Addr a)],
      Printf ''Value of count (after incrementValue): %d\<newline>'' [ArgInt 11]]"
  "a \<noteq> b \<Longrightarrow> printed_in 6 a b =
     [Println ''\<newline>After incrementValueNoPtr function (no pointer version):'',
      Printf ''Address of count in memory (after incrementValueNoPtr): %p\<newline>''
        [ArgPtr (Addr a)],
      Printf ''Value of count (after incrementValueNoPtr): %d\<newline>'' [ArgInt 11]]"
  by (simp_all add: printed_in_def after_step_def main_defs incrementValue_def
      incrementValueNoPtr_def prim_defs obs_defs fun_upd_twist)

lemma run_main_result:
  assumes "a \<noteq> b"
  shows "run_main a b = Inr \<lparr>cells = Map.empty, stdout =
     [Println ''Initial state:'',
      Printf ''Variable name: count\<newline>'' [],
      Printf ''Address of count in memory: %p\<newline>'' [ArgPtr (Addr a)],
      Printf ''Value of count: %d\<newline>'' [ArgInt 10],
      Println ''\<newline>Inside incrementValue function (pointer version):'',
      Printf ''Address of variable inside function: %p\<newline>'' [ArgPtr (Addr a)],
      Printf ''Address where the value is stored (dereferenced pointer): %p\<newline>''
        [ArgPtr (Addr a)],
      Printf ''Value before increment: %d\<newline>'' [ArgInt 10],
      Printf ''Value after increment: %d\<newline>'' [ArgInt 11],
      Printf
        ''Address of variable inside function after increment (still same pointer address): %p\<newline>''
        [ArgPtr (Addr a)],
      Printf
        ''Address where the value is stored after increment (still same memory location): %p\<newline>''
        [ArgPtr (Addr a)],
      Println ''\<newline>After incrementValue function (pointer version):'',
      Printf ''Address of count in memory (after incrementValue): %p\<newline>'' [ArgPtr (Addr a)],
      Printf ''Value of count (after incrementValue): %d\<newline>'' [ArgInt 11],
      Println ''\<newline>Inside incrementValueNoPtr function (no pointer version):'',
      Printf ''Address of variable inside function: %p\<newline>'' [ArgPtr (Addr b)],
      Printf ''Value before increment: %d\<newline>'' [ArgInt 11],
      Printf ''Value after increment: %d\<newline>'' [ArgInt 12],
      Printf
        ''Address of variable inside function after increment (still same address of copy): %p\<newline>''
        [ArgPtr (Addr b)],
      Println ''\<newline>After incrementValueNoPtr function (no pointer version):'',
      Printf ''Address of count in memory (after incrementValueNoPtr): %p\<newline>''
        [ArgPtr (Addr a)],
      Printf ''Value of count (after incrementValueNoPtr): %d\<newline>'' [ArgInt 11]]\<rparr>"
  using assms
  by (simp add: run_main_def main_def main_defs incrementValue_def incrementValueNoPtr_def
      prim_defs fun_upd_twist)

lemma incrementValueNoPtr_times_fresh:
  assumes "\<forall>b \<in> set bs. cells s b = None"
  shows "incrementValueNoPtr_times bs v s =
    Inr (s\<lparr>stdout := printed (incrementValueNoPtr_times bs v s)\<rparr>)"
  using assms
proof (induction bs arbitrary: s)
  case Nil
  then show ?case by (simp add: incrementValueNoPtr_times_def obs_defs)
next
  case (Cons b bs)
  from Cons.prems have fresh: "cells s b = None" by simp
  define s1 where "s1 = final (incrementValueNoPtr b v s)"
  have s1: "incrementValueNoPtr b v s = Inr s1" and c1: "cells s1 = cells s"
    and upd: "s1\<lparr>stdout := evs\<rparr> = s\<lparr>stdout := evs\<rparr>" for evs
    by (simp_all add: s1_def incrementValueNoPtr_fresh [OF fresh] obs_defs)
  from Cons.prems c1 have "\<forall>b \<in> set bs. cells s1 b = None" by simp
  from Cons.IH [OF this] have
    "incrementValueNoPtr_times bs v s1 =
      Inr (s1\<lparr>stdout := printed (incrementValueNoPtr_times bs v s1)\<rparr>)" .
  moreover have "incrementValueNoPtr_times (b # bs) v s = incrementValueNoPtr_times bs v s1"
    using s1 by (simp add: incrementValueNoPtr_times_def)
  ultimately show ?case by (simp add: upd)
qed

lemma incrementValue_times_live:
  assumes "cells s a = Some v"
  shows "cell_after (incrementValue_times n (Addr a) s) a = Some (v + of_nat n)"
  using assms
proof (induction n arbitrary: s v)
  case 0
  then show ?case by (simp add: incrementValue_times_def cell_after_def)
next
  case (Suc n)
  define s1 where "s1 = final (incrementValue (Addr a) s)"
  have s1: "incrementValue (Addr a) s = Inr s1" and c1: "cells s1 a = Some (v + 1)"
    by (simp_all add: s1_def incrementValue_live [OF Suc.prems] obs_defs)
  have "incrementValue_times (Suc n) (Addr a) s = incrementValue_times n (Addr a) s1"
    using s1 by (simp add: incrementValue_times_def)
  with Suc.IH [OF c1] show ?case by (simp add: ac_simps)
qed

subsection \<open>Mutation through the pointer\<close>

text \<open>
  Claim C1, as amended. When \<open>incrementValue\<close> is called with the address of a variable
  holding \<open>v\<close>, the call returns and the variable holds \<open>v + 1\<close> in Go's \<open>int\<close>
  arithmetic: the integer \<open>v + 1\<close> for every \<open>v\<close> below the largest \<open>int\<close>, and the
  smallest \<open>int\<close>, \<open>- 2 ^ 63\<close>, when \<open>v\<close> is the largest, \<open>2 ^ 63 - 1\<close>.
\<close>

theorem incrementValue_adds_one:
  assumes "cells s a = Some v"
  shows "cell_after (incrementValue (Addr a) s) a = Some (v + 1) \<and>
    sint (v + 1) =
      (if sint v = 9223372036854775807 then - 9223372036854775808 else sint v + 1)"
  using assms by (simp add: incrementValue_live cell_after_def sint_succ)

theorem incrementValue_adds_one_witness:
  "cells \<lparr>cells = [16 \<mapsto> 10], stdout = []\<rparr> 16 = Some 10 \<and>
   cell_after (incrementValue (Addr 16) \<lparr>cells = [16 \<mapsto> 10], stdout = []\<rparr>) 16 = Some 11 \<and>
   sint (11 :: go_int) = 11"
  using incrementValue_adds_one [of "\<lparr>cells = [16 \<mapsto> 10], stdout = []\<rparr>" 16 10]
  by simp

text \<open>
  The claim as stated, for every integer value \<open>v\<close>, fails at the largest \<open>int\<close>:
  the variable then holds \<open>- 9223372036854775808\<close>, not \<open>9223372036854775808\<close>.
\<close>

theorem incrementValue_max_int_counterexample:
  "map_option sint
     (cell_after
        (incrementValue (Addr 16) \<lparr>cells = [16 \<mapsto> 9223372036854775807], stdout = []\<rparr>) 16)
     = Some (- 9223372036854775808) \<and>
   map_option sint
     (cell_after
        (incrementValue (Addr 16) \<lparr>cells = [16 \<mapsto> 9223372036854775807], stdout = []\<rparr>) 16)
     \<noteq> Some (sint (9223372036854775807 :: go_int) + 1)"
  by (simp add: incrementValue_live cell_after_def)

subsection \<open>The copy\<close>

text \<open>
  Claim C2. A call of \<open>incrementValueNoPtr\<close> with any value \<open>v\<close> returns and leaves
  every variable of its caller as it was: the store after the call is the store before
  it, whatever \<open>v + 1\<close> is. The configuration differs from the one before the call only
  in the lines the callee printed, which come after what was printed before. The
  parameter's address \<open>b\<close> is fresh, as every address the runtime gives a new variable.
\<close>

theorem incrementValueNoPtr_frame:
  assumes "b \<notin> dom (cells s)"
  shows "returned (incrementValueNoPtr b v s) \<and>
    cells (final (incrementValueNoPtr b v s)) = cells s \<and>
    incrementValueNoPtr b v s = Inr (s\<lparr>stdout := printed (incrementValueNoPtr b v s)\<rparr>) \<and>
    take (length (stdout s)) (printed (incrementValueNoPtr b v s)) = stdout s"
proof -
  from assms have "cells s b = None"
    by (simp add: domIff)
  then show ?thesis
    by (simp add: incrementValueNoPtr_fresh obs_defs)
qed

theorem incrementValueNoPtr_frame_witness:
  "(32 :: addr) \<notin> dom (cells \<lparr>cells = [16 \<mapsto> 11], stdout = []\<rparr>) \<and>
   returned (incrementValueNoPtr 32 11 \<lparr>cells = [16 \<mapsto> 11], stdout = []\<rparr>) \<and>
   cells (final (incrementValueNoPtr 32 11 \<lparr>cells = [16 \<mapsto> 11], stdout = []\<rparr>)) = [16 \<mapsto> 11]"
  using incrementValueNoPtr_frame [of 32 "\<lparr>cells = [16 \<mapsto> 11], stdout = []\<rparr>" 11]
  by simp

subsection \<open>The driver's run\<close>

text \<open>
  Claim C3. In the run of \<open>main\<close>, \<open>count\<close> holds 10 once declared (step 1) and when
  first reported (step 2), 11 after the call of \<open>incrementValue\<close> (steps 3 and 4), and
  still 11 after the call of \<open>incrementValueNoPtr\<close> with the value 11 (steps 5 and 6).
\<close>

theorem main_trajectory:
  assumes "a \<noteq> b"
  shows "cell_after (after_step 1 a b) a = Some 10 \<and>
    cell_after (after_step 2 a b) a = Some 10 \<and>
    cell_after (after_step 3 a b) a = Some 11 \<and>
    cell_after (after_step 4 a b) a = Some 11 \<and>
    cell_after (after_step 5 a b) a = Some 11 \<and>
    cell_after (after_step 6 a b) a = Some 11"
  using assms by (simp add: cell_after_final steps_returned steps_cells del: One_nat_def)

theorem main_trajectory_witness:
  "(16 :: addr) \<noteq> 32 \<and>
   cell_after (after_step 1 16 32) 16 = Some 10 \<and>
   cell_after (after_step 3 16 32) 16 = Some 11 \<and>
   cell_after (after_step 5 16 32) 16 = Some 11"
  using main_trajectory [of 16 32] by (simp del: One_nat_def)

text \<open>
  Claim C4. At the end of every step of \<open>main\<close> the one live variable is \<open>count\<close>, at
  the address \<open>a\<close> it was declared at: neither call moves it, and the copy is gone when
  \<open>incrementValueNoPtr\<close> has returned. The address \<open>main\<close> prints in each of its
  three reports (steps 2, 4 and 6) is that same \<open>a\<close>.
\<close>

theorem count_address_stable:
  assumes "a \<noteq> b"
  shows "(\<forall>k \<in> set [1, 2, 3, 4, 5, 6].
            returned (after_step k a b) \<and> dom (cells (final (after_step k a b))) = {a}) \<and>
    concat (map event_ptrs (printed_in 2 a b)) = [Addr a] \<and>
    concat (map event_ptrs (printed_in 4 a b)) = [Addr a] \<and>
    concat (map event_ptrs (printed_in 6 a b)) = [Addr a]"
  using assms by (simp add: steps_returned steps_cells printed_in_steps del: One_nat_def)

theorem count_address_stable_witness:
  "(16 :: addr) \<noteq> 32 \<and>
   dom (cells (final (after_step 1 16 32))) = {16} \<and>
   dom (cells (final (after_step 3 16 32))) = {16} \<and>
   dom (cells (final (after_step 5 16 32))) = {16} \<and>
   dom (cells (final (after_step 6 16 32))) = {16} \<and>
   concat (map event_ptrs (printed_in 6 16 32)) = [Addr 16]"
  using count_address_stable [of 16 32] by (simp del: One_nat_def)

subsection \<open>Repeated calls\<close>

text \<open>
  Claim C5. However many times \<open>incrementValueNoPtr\<close> is called in a row with the value
  \<open>v\<close> (one call for each address of \<open>bs\<close>, each fresh for the caller), all calls
  return and the caller's variables hold what they hold after one call, which is what
  they held before any call.
\<close>

theorem incrementValueNoPtr_idempotent:
  assumes "\<forall>b \<in> set (b1 # bs). b \<notin> dom (cells s)"
  shows "returned (incrementValueNoPtr_times bs v s) \<and>
    returned (incrementValueNoPtr b1 v s) \<and>
    cells (final (incrementValueNoPtr_times bs v s)) = cells (final (incrementValueNoPtr b1 v s)) \<and>
    cells (final (incrementValueNoPtr_times bs v s)) = cells s"
proof -
  from assms have fresh: "\<forall>b \<in> set bs. cells s b = None" and "cells s b1 = None"
    by (auto simp: domIff)
  note many = only_printed [OF incrementValueNoPtr_times_fresh [OF fresh, of v]]
  note one = only_printed [OF incrementValueNoPtr_fresh [OF \<open>cells s b1 = None\<close>, of v]]
  from many one show ?thesis by simp
qed

theorem incrementValueNoPtr_idempotent_witness:
  "(32 :: addr) \<notin> dom (cells \<lparr>cells = [16 \<mapsto> 11], stdout = []\<rparr>) \<and>
   (40 :: addr) \<notin> dom (cells \<lparr>cells = [16 \<mapsto> 11], stdout = []\<rparr>) \<and>
   cells (final (incrementValueNoPtr_times [40, 32] 11 \<lparr>cells = [16 \<mapsto> 11], stdout = []\<rparr>)) =
     [16 \<mapsto> 11]"
proof -
  have fresh: "\<forall>b \<in> set [32, 40, 32 :: addr].
      b \<notin> dom (cells \<lparr>cells = [16 \<mapsto> 11], stdout = []\<rparr>)"
    by simp
  from incrementValueNoPtr_idempotent [OF fresh, of 11]
  have "cells (final (incrementValueNoPtr_times [40, 32] 11 \<lparr>cells = [16 \<mapsto> 11], stdout = []\<rparr>)) =
      cells \<lparr>cells = [16 \<mapsto> 11], stdout = []\<rparr>"
    by blast
  with fresh show ?thesis by simp
qed

text \<open>
  Claim C6, as amended. After \<open>n\<close> calls of \<open>incrementValue\<close> in a row on a variable
  holding \<open>v\<close>, all calls have returned and the variable holds \<open>v + n\<close> in Go's \<open>int\<close>
  arithmetic, which is the integer \<open>v + n\<close> as long as that does not exceed the largest
  \<open>int\<close>, \<open>2 ^ 63 - 1\<close>. Two calls never leave what one call leaves.
\<close>

theorem incrementValue_times_adds:
  assumes "cells s a = Some v"
  shows "cell_after (incrementValue_times n (Addr a) s) a = Some (v + of_nat n) \<and>
    (sint v + int n < 9223372036854775808 \<longrightarrow> sint (v + of_nat n) = sint v + int n) \<and>
    cell_after (incrementValue_times 2 (Addr a) s) a \<noteq>
      cell_after (incrementValue_times 1 (Addr a) s) a"
proof -
  have "sint (v + of_nat n) = sint v + int n" if "sint v + int n < 9223372036854775808"
    using sint_add_in_range [of "int n" v] that by simp
  moreover have "cell_after (incrementValue_times 2 (Addr a) s) a = Some (v + 2)"
    using incrementValue_times_live [OF assms, of 2] by simp
  moreover have "cell_after (incrementValue_times 1 (Addr a) s) a = Some (v + 1)"
    using incrementValue_times_live [OF assms, of 1] by simp
  ultimately show ?thesis
    using incrementValue_times_live [OF assms, of n] by simp
qed

theorem incrementValue_times_adds_witness:
  "cells \<lparr>cells = [16 \<mapsto> 10], stdout = []\<rparr> 16 = Some 10 \<and>
   cell_after (incrementValue_times 3 (Addr 16) \<lparr>cells = [16 \<mapsto> 10], stdout = []\<rparr>) 16 = Some 13 \<and>
   sint (10 :: go_int) + int 3 < 9223372036854775808 \<and>
   sint (10 + of_nat 3 :: go_int) = sint (10 :: go_int) + int 3"
  using incrementValue_times_adds [of "\<lparr>cells = [16 \<mapsto> 10], stdout = []\<rparr>" 16 10 3]
  by simp

text \<open>
  The claim as stated, with the integer \<open>v + n\<close> for every \<open>v\<close> and \<open>n\<close>, fails
  where the sum passes the largest \<open>int\<close>: two calls from \<open>9223372036854775806\<close> leave
  \<open>- 9223372036854775808\<close>.
\<close>

theorem incrementValue_twice_overflow_counterexample:
  "map_option sint
     (cell_after
        (incrementValue_times 2 (Addr 16)
           \<lparr>cells = [16 \<mapsto> 9223372036854775806], stdout = []\<rparr>) 16)
     = Some (- 9223372036854775808) \<and>
   map_option sint
     (cell_after
        (incrementValue_times 2 (Addr 16)
           \<lparr>cells = [16 \<mapsto> 9223372036854775806], stdout = []\<rparr>) 16)
     \<noteq> Some (sint (9223372036854775806 :: go_int) + 2)"
proof -
  have "cell_after
        (incrementValue_times 2 (Addr 16)
           \<lparr>cells = [16 \<mapsto> 9223372036854775806], stdout = []\<rparr>) 16
      = Some (9223372036854775806 + of_nat 2)"
    by (rule incrementValue_times_live) simp
  then show ?thesis by simp
qed

subsection \<open>The output\<close>

text \<open>
  Claim C7, as amended. \<open>main\<close> itself reports three times: after declaring \<open>count\<close>
  (step 2), after the call of \<open>incrementValue\<close> (step 4) and after the call of
  \<open>incrementValueNoPtr\<close> (step 6). Each report is a label line, a line with the address
  of \<open>count\<close> and a line with the value \<open>count\<close> holds at that moment. The declaration
  itself (step 1) prints nothing.
\<close>

theorem main_reports:
  assumes "a \<noteq> b"
  shows "printed_in 1 a b = [] \<and>
    printed_in 2 a b =
     [Println ''Initial state:'',
      Printf ''Variable name: count\<newline>'' [],
      Printf ''Address of count in memory: %p\<newline>'' [ArgPtr (Addr a)],
      Printf ''Value of count: %d\<newline>'' [ArgInt 10]] \<and>
    cell_after (after_step 2 a b) a = Some 10 \<and>
    printed_in 4 a b =
     [Println ''\<newline>After incrementValue function (pointer version):'',
      Printf ''Address of count in memory (after incrementValue): %p\<newline>'' [ArgPtr (Addr a)],
      Printf ''Value of count (after incrementValue): %d\<newline>'' [ArgInt 11]] \<and>
    cell_after (after_step 4 a b) a = Some 11 \<and>
    printed_in 6 a b =
     [Println ''\<newline>After incrementValueNoPtr function (no pointer version):'',
      Printf ''Address of count in memory (after incrementValueNoPtr): %p\<newline>''
        [ArgPtr (Addr a)],
      Printf ''Value of count (after incrementValueNoPtr): %d\<newline>'' [ArgInt 11]] \<and>
    cell_after (after_step 6 a b) a = Some 11"
  using assms
  by (simp add: printed_in_steps cell_after_final steps_returned steps_cells del: One_nat_def)

theorem main_reports_witness:
  "(16 :: addr) \<noteq> 32 \<and>
   printed_in 6 16 32 =
     [Println ''\<newline>After incrementValueNoPtr function (no pointer version):'',
      Printf ''Address of count in memory (after incrementValueNoPtr): %p\<newline>''
        [ArgPtr (Addr 16)],
      Printf ''Value of count (after incrementValueNoPtr): %d\<newline>'' [ArgInt 11]] \<and>
   cell_after (after_step 6 16 32) 16 = Some 11"
  using main_reports [of 16 32] by (simp del: One_nat_def)

text \<open>
  The claim as stated has a report at each of four points of the driver's sequence, the
  first of which is the creation of the variable: nothing is printed there.
\<close>

theorem main_step_1_silent_counterexample:
  "printed_in 1 16 32 = []"
  by (simp add: printed_in_steps del: One_nat_def)

text \<open>
  Claim C8. \<open>main\<close> takes nothing from the command line or the environment: the only
  things its run depends on are the two addresses the runtime chooses. Every run returns
  from \<open>main\<close> normally, so the process exits with status 0; the panic of a pointer
  indirection is never reached.
\<close>

theorem main_exits_0:
  assumes "a \<noteq> b"
  shows "returned (run_main a b) \<and> exit_code (run_main a b) = 0"
  using assms by (simp add: run_main_result returned_def exit_code_def)

theorem main_exits_0_witness:
  "(16 :: addr) \<noteq> 32 \<and> returned (run_main 16 32) \<and> exit_code (run_main 16 32) = 0"
  using main_exits_0 [of 16 32] by simp

text \<open>
  Claim C9, as amended. Two runs print the same lines with the same integer values, and
  end the same way; they can differ only in the addresses printed, which are those of
  \<open>count\<close> and of the parameter of \<open>incrementValueNoPtr\<close>, chosen by the runtime.
\<close>

theorem main_output_up_to_addresses:
  assumes "a \<noteq> b" and "a' \<noteq> b'"
  shows "map erase_addresses (printed (run_main a b)) =
      map erase_addresses (printed (run_main a' b')) \<and>
    set (concat (map event_ptrs (printed (run_main a b)))) = {Addr a, Addr b} \<and>
    exit_code (run_main a b) = exit_code (run_main a' b')"
  using assms by (auto simp add: run_main_result obs_defs exit_code_def)

theorem main_output_up_to_addresses_witness:
  "(16 :: addr) \<noteq> 32 \<and> (48 :: addr) \<noteq> 64 \<and>
   map erase_addresses (printed (run_main 16 32)) =
     map erase_addresses (printed (run_main 48 64)) \<and>
   set (concat (map event_ptrs (printed (run_main 16 32)))) = {Addr 16, Addr 32}"
  using main_output_up_to_addresses [of 16 32 48 64] by simp

text \<open>
  The claim as stated, that the whole text is the same in any two runs, fails when the
  runtime places the variables elsewhere: the \<open>%p\<close> operands differ, here
  \<open>0xc000012080\<close> and \<open>0xc000012088\<close> in one run, \<open>0xc0000140a0\<close> and
  \<open>0xc0000140a8\<close> in the other.
\<close>

theorem main_output_addresses_counterexample:
  "printed (run_main 0xc000012080 0xc000012088) \<noteq>
   printed (run_main 0xc0000140a0 0xc0000140a8)"
  by (simp add: run_main_result obs_defs)

subsection \<open>The nil pointer\<close>

text \<open>
  Claim C10. \<open>incrementValue\<close> has no nil check: called with \<open>nil\<close> it panics on the
  first indirection and does not return. It returns exactly when its argument points to
  a live variable. In \<open>main\<close> the argument is the address of \<open>count\<close>, which is
  live and holds 10 at the call, and the call returns.
\<close>

theorem incrementValue_nil_panics:
  "\<not> returned (incrementValue NilPtr s) \<and>
   map_sum fst id (incrementValue NilPtr s) = Inl NilDereference \<and>
   returned (incrementValue p s) = (case p of NilPtr \<Rightarrow> False | Addr a \<Rightarrow> cells s a \<noteq> None) \<and>
   deref (Addr a) (final (after_step 2 a b)) = Some 10 \<and>
   returned (after_step 3 a b)"
proof -
  have "returned (incrementValue p s) = (case p of NilPtr \<Rightarrow> False | Addr a \<Rightarrow> cells s a \<noteq> None)"
  proof (cases p)
    case NilPtr
    then show ?thesis by (simp add: incrementValue_nil returned_def)
  next
    case (Addr x)
    then show ?thesis
      by (cases "cells s x") (simp_all add: incrementValue_live incrementValue_dangling returned_def)
  qed
  then show ?thesis
    by (simp add: incrementValue_nil returned_def deref_def steps_cells steps_returned [unfolded returned_def])
qed

end
